theory Spec2Isabelle
  imports Complex_Main "HOL-Library.Log_Nat"
begin

section \<open>The Scheduler of the OAK JavaScript SDK (src/scheduler.ts)\<close>

subsection \<open>Numbers\<close>

text \<open>
  A TypeScript \<^verbatim>\<open>number\<close> is an IEEE 754 binary64 value. The finite ones are rationals,
  and a \<^verbatim>\<open>number\<close> is modelled as a rational; NaN and the infinities are not modelled.
  Comparison and the remainder operator are exact on doubles, and so are the sums and
  differences the scheduler forms (integers far below \<open>2^53\<close>). The quotient
  \<^verbatim>\<open>(...) / 1000\<close> inside \<open>nextAvailableHour\<close> is that of a multiple of 3600000 and is
  exact as well. The division of \<open>convertToSeconds\<close> is not exact in general: it is
  \<open>js_div\<close> below, the exact quotient rounded to the nearest double.
  \<^verbatim>\<open>Date.now()\<close> returns an integer count of milliseconds: the clock reading is an
  \<open>int\<close> argument of the functions that read the clock.
\<close>

type_synonym number = rat

definition js_trunc :: "rat \<Rightarrow> int" where
  "js_trunc q = (if 0 \<le> q then \<lfloor>q\<rfloor> else \<lceil>q\<rceil>)"

text \<open>
  The operator \<^verbatim>\<open>a % b\<close> of JavaScript: the remainder of the division truncated
  towards zero, with the sign of the dividend. The code only divides by the non-zero
  constants 3600 and 3600000.
\<close>

definition js_rem :: "number \<Rightarrow> number \<Rightarrow> number" where
  "js_rem a b = a - b * of_int (js_trunc (a / b))"

text \<open>
  The operator \<^verbatim>\<open>a / b\<close> on doubles: the exact quotient, rounded to the nearest binary64
  value, ties to the even significand. For \<open>q \<noteq> 0\<close>, \<open>binary_exponent q\<close> is the \<open>e\<close> with
  \<open>2^e \<le> |q| < 2^(e+1)\<close>; the spacing of the doubles around \<open>q\<close> is \<open>2^(e - 52)\<close>, and
  \<open>2^(-1074)\<close> in the subnormal range. A quotient beyond the largest double (the code
  divides a double by 1000, which cannot produce one) is not modelled.
\<close>

definition binary_exponent :: "rat \<Rightarrow> int" where
  "binary_exponent q =
     (case quotient_of \<bar>q\<bar> of
        (a, b) \<Rightarrow> let d = bitlen a - bitlen b in if power_int 2 d \<le> \<bar>q\<bar> then d else d - 1)"

definition round_half_even :: "rat \<Rightarrow> int" where
  "round_half_even q =
     (let f = \<lfloor>q\<rfloor>; r = q - of_int f
      in if r < 1 / 2 then f else if 1 / 2 < r then f + 1 else if even f then f else f + 1)"

definition ulp :: "rat \<Rightarrow> rat" where
  "ulp q = power_int 2 (max (binary_exponent q) (- 1022) - 52)"

definition to_double :: "rat \<Rightarrow> rat" where
  "to_double q = of_int (round_half_even (q / ulp q)) * ulp q"

definition js_div :: "number \<Rightarrow> number \<Rightarrow> number" where
  "js_div a b = to_double (a / b)"

subsection \<open>Constants of src/constants.ts\<close>

text \<open>
  Modelled from the spec: src/constants.ts is not among the sources. The spec fixes the
  recurring-task limit at 24.
\<close>

definition RECURRING_TASK_LIMIT :: number where
  "RECURRING_TASK_LIMIT = 24"

text \<open>
  Modelled from the spec: src/constants.ts is not among the sources. The spec divides
  milliseconds by 1000 to obtain seconds.
\<close>

definition MS_IN_SEC :: number where
  "MS_IN_SEC = 1000"

text \<open>
  Modelled from the spec: src/constants.ts is not among the sources. The spec's hour is
  3600 seconds, the product of the two constants below.
\<close>

definition SEC_IN_MIN :: number where
  "SEC_IN_MIN = 60"

definition MIN_IN_HOUR :: number where
  "MIN_IN_HOUR = 60"

text \<open>
  \<^verbatim>\<open>LOWEST_TRANSFERRABLE_AMOUNT\<close> and the table \<^verbatim>\<open>OakChainSchedulingLimit\<close> have no
  value in the spec: the first is a parameter of \<open>validateTransferParams\<close>, the second
  is read once by the constructor into the field \<open>schedulingTimeLimit\<close>.
\<close>

subsection \<open>Errors\<close>

text \<open>
  Every \<^verbatim>\<open>throw new Error(...)\<close> of the source is a constructor:
  \<^item> \<open>TooManyTasks\<close>: \<^verbatim>\<open>Recurring Task length cannot exceed 24\<close>
  \<^item> \<open>TimestampInPast\<close>: \<^verbatim>\<open>Scheduled timestamp in the past\<close>
  \<^item> \<open>NotHourAligned\<close>: \<^verbatim>\<open>Timestamp is not an hour timestamp\<close>
  \<^item> \<open>TooFarInFuture\<close>: \<^verbatim>\<open>Timestamp too far in future\<close>
  \<^item> \<open>AmountTooLow\<close>: \<^verbatim>\<open>Amount too low\<close>
  \<^item> \<open>SelfTransfer\<close>: \<^verbatim>\<open>Cannot send to self\<close>
  \<^item> \<open>External\<close>: an exception or a rejection coming from outside the class (the chain
    connection, the signer, the submission, the registry's lookup, the decoder), with
    its message.
\<close>

datatype error =
    TooManyTasks
  | TimestampInPast
  | NotHourAligned
  | TooFarInFuture
  | AmountTooLow
  | SelfTransfer
  | External string

subsection \<open>Data\<close>

text \<open>The registry's description of a module error: \<^verbatim>\<open>{ docs, name, section }\<close>.\<close>

record RegistryError =
  err_docs :: "string list"
  err_name :: string
  err_section :: string

text \<open>
  A dispatch error is module-scoped (\<^verbatim>\<open>isModule\<close>, read with \<^verbatim>\<open>asModule\<close>: a pallet
  index and an error index) or opaque, in which case the code only reads its
  \<^verbatim>\<open>toString()\<close>.
\<close>

datatype DispatchError =
    Module nat nat
  | NonModule string

text \<open>
  What the handlers read of an \<^verbatim>\<open>ISubmittableResult\<close>: \<^verbatim>\<open>status.type\<close>,
  \<^verbatim>\<open>status.isFinalized\<close> and \<^verbatim>\<open>dispatchError\<close> (\<open>None\<close> when it is nil).
\<close>

record ISubmittableResult =
  status_type :: string
  isFinalized :: bool
  dispatchError :: "DispatchError option"

text \<open>
  A decoded extrinsic, \<^verbatim>\<open>polkadotApi.tx(extrinsicHex)\<close>: its bytes and its
  \<^verbatim>\<open>hash.toString()\<close>.
\<close>

record SubmittableExtrinsic =
  tx_bytes :: string
  tx_hash :: string

text \<open>
  The connected client. The code uses the registry's lookup
  \<^verbatim>\<open>api.registry.findMetaError\<close>, which throws on a module error the metadata does not
  list, and the decoder \<^verbatim>\<open>polkadotApi.tx\<close>, which throws on bytes that are not an
  extrinsic. Both are local computations: they may fail but do not touch the world.
\<close>

record ApiPromise =
  findMetaError :: "nat \<Rightarrow> nat \<Rightarrow> error + RegistryError"
  tx :: "string \<Rightarrow> error + SubmittableExtrinsic"

text \<open>
  The object: \<open>api\<close> is \<open>None\<close> until the first connection; \<open>schedulingTimeLimit\<close> is
  set by the constructor and never written again. The fields \<^verbatim>\<open>chain\<close> and
  \<^verbatim>\<open>wsProvider\<close> are only read by the constructor and by \<^verbatim>\<open>ApiPromise.create\<close>.
\<close>

record Scheduler =
  schedulingTimeLimit :: number
  api :: "ApiPromise option"

text \<open>The three calls of the automationTime pallet that the builders assemble.\<close>

datatype extrinsic =
    ScheduleNotifyTask number "number list" string
  | ScheduleNativeTransferTask string "number list" string number
  | CancelTask number

subsection \<open>convertToSeconds\<close>

definition convertToSeconds :: "number list \<Rightarrow> number list" where
  "convertToSeconds startTimestamps =
     map (\<lambda>startTimestamp.
            let isMillisecond = startTimestamp > 100000000000
            in if isMillisecond then js_div startTimestamp MS_IN_SEC else startTimestamp)
         startTimestamps"

subsection \<open>validateTimestamps and validateTransferParams\<close>

definition nextAvailableHour :: "int \<Rightarrow> number" where
  "nextAvailableHour currentTime =
     (of_int currentTime
        - js_rem (of_int currentTime) (SEC_IN_MIN * MIN_IN_HOUR * MS_IN_SEC)
        + SEC_IN_MIN * MIN_IN_HOUR * MS_IN_SEC) / 1000"

text \<open>The body of the callback given to \<^verbatim>\<open>_.forEach\<close>: three checks, in this order.\<close>

definition checkTimestamp :: "Scheduler \<Rightarrow> int \<Rightarrow> number \<Rightarrow> error + unit" where
  "checkTimestamp this currentTime timestamp =
     (if timestamp < nextAvailableHour currentTime then Inl TimestampInPast
      else if js_rem timestamp (SEC_IN_MIN * MIN_IN_HOUR) \<noteq> 0 then Inl NotHourAligned
      else if timestamp > of_int currentTime + schedulingTimeLimit this then Inl TooFarInFuture
      else Inr ())"

text \<open>
  \<^verbatim>\<open>_.forEach\<close> calls the callback on each element in order; an exception thrown by
  the callback ends the iteration and propagates.
\<close>

fun forEach :: "'a list \<Rightarrow> ('a \<Rightarrow> error + unit) \<Rightarrow> error + unit" where
  "forEach [] f = Inr ()"
| "forEach (x # xs) f = (case f x of Inl e \<Rightarrow> Inl e | Inr _ \<Rightarrow> forEach xs f)"

definition validateTimestamps :: "Scheduler \<Rightarrow> int \<Rightarrow> number list \<Rightarrow> error + unit" where
  "validateTimestamps this currentTime timestamps =
     (if of_nat (length timestamps) > RECURRING_TASK_LIMIT then Inl TooManyTasks
      else forEach timestamps (checkTimestamp this currentTime))"

definition validateTransferParams :: "number \<Rightarrow> number \<Rightarrow> string \<Rightarrow> string \<Rightarrow> error + unit" where
  "validateTransferParams LOWEST_TRANSFERRABLE_AMOUNT amount sendingAddress receivingAddress =
     (if amount < LOWEST_TRANSFERRABLE_AMOUNT then Inl AmountTooLow
      else if sendingAddress = receivingAddress then Inl SelfTransfer
      else Inr ())"

subsection \<open>Collaborators\<close>

text \<open>
  Everything outside the class is a parameter. The state of the outside world (the chain
  node, the signer, the console) has an arbitrary type \<open>'w\<close>; a collaborator takes the
  world and returns it changed, and a promise that rejects is an \<open>Inl\<close>.
  \<^item> \<open>ApiPromise_create\<close>: \<^verbatim>\<open>ApiPromise.create({ provider, rpc })\<close>, the connection to the
    chain;
  \<^item> \<open>signAsync\<close>: \<^verbatim>\<open>extrinsic.signAsync(address, { signer, nonce: -1 })\<close> followed by
    \<^verbatim>\<open>toHex()\<close>: it asks the chain for the next nonce and the signer for a signature;
  \<^item> \<open>console_log\<close>: \<^verbatim>\<open>console.log\<close>;
  \<^item> \<open>submitAndWatch\<close>: the remote call behind \<^verbatim>\<open>txObject.send(callback)\<close>: it submits
    the bytes and, when the node accepts them, yields the status events the node emits
    for this transaction, in the order it emits them.
\<close>

type_synonym Signer = string

record 'w collaborators =
  ApiPromise_create :: "'w \<Rightarrow> (error + ApiPromise) \<times> 'w"
  signAsync :: "extrinsic \<Rightarrow> string \<Rightarrow> Signer \<Rightarrow> 'w \<Rightarrow> (error + string) \<times> 'w"
  console_log :: "string \<Rightarrow> 'w \<Rightarrow> 'w"
  submitAndWatch :: "SubmittableExtrinsic \<Rightarrow> 'w \<Rightarrow> (error + ISubmittableResult list) \<times> 'w"

subsection \<open>JSON.stringify\<close>

text \<open>
  \<^verbatim>\<open>JSON.stringify({ docs, name, section })\<close>, with \<^verbatim>\<open>docs\<close> an array of strings: the
  members in this order, no white space. A string is quoted; the quote and the backslash
  are escaped with a backslash, the control characters below 0x20 are written
  \<^verbatim>\<open>\b \t \n \f \r\<close> or \<^verbatim>\<open>\u00XX\<close>, every other character is copied.
\<close>

definition hex_digit :: "nat \<Rightarrow> char" where
  "hex_digit n = ''0123456789abcdef'' ! (n mod 16)"

definition JSON_escape :: "char \<Rightarrow> string" where
  "JSON_escape c =
     (if c = CHR 0x22 then [CHR 0x5C, CHR 0x22]
      else if c = CHR 0x5C then [CHR 0x5C, CHR 0x5C]
      else if c = CHR 0x08 then [CHR 0x5C, CHR ''b'']
      else if c = CHR 0x09 then [CHR 0x5C, CHR ''t'']
      else if c = CHR 0x0A then [CHR 0x5C, CHR ''n'']
      else if c = CHR 0x0C then [CHR 0x5C, CHR ''f'']
      else if c = CHR 0x0D then [CHR 0x5C, CHR ''r'']
      else if (of_char c :: nat) < 32
        then [CHR 0x5C, CHR ''u'', CHR ''0'', CHR ''0'',
              hex_digit (of_char c div 16), hex_digit (of_char c)]
      else [c])"

definition JSON_quote :: "string \<Rightarrow> string" where
  "JSON_quote s = [CHR 0x22] @ concat (map JSON_escape s) @ [CHR 0x22]"

fun join_commas :: "string list \<Rightarrow> string" where
  "join_commas [] = []"
| "join_commas [x] = x"
| "join_commas (x # y # ys) = x @ '','' @ join_commas (y # ys)"

definition JSON_stringify :: "RegistryError \<Rightarrow> string" where
  "JSON_stringify m =
     ''{'' @ JSON_quote ''docs'' @ '':['' @ join_commas (map JSON_quote (err_docs m)) @ '']''
       @ '','' @ JSON_quote ''name'' @ '':'' @ JSON_quote (err_name m)
       @ '','' @ JSON_quote ''section'' @ '':'' @ JSON_quote (err_section m) @ ''}''"

subsection \<open>getAPIClient\<close>

text \<open>
  A method that writes a field returns the object next to its result: the result, then
  \<^verbatim>\<open>this\<close>, then the world.
\<close>

definition getAPIClient ::
  "'w collaborators \<Rightarrow> Scheduler \<Rightarrow> 'w \<Rightarrow> (error + ApiPromise) \<times> Scheduler \<times> 'w" where
  "getAPIClient env this w =
     (case api this of
        None \<Rightarrow>
          (case ApiPromise_create env w of
             (Inl e, w') \<Rightarrow> (Inl e, this, w')
           | (Inr a, w') \<Rightarrow> (Inr a, this\<lparr>api := Some a\<rparr>, w'))
      | Some a \<Rightarrow> (Inr a, this, w))"

subsection \<open>defaultErrorHandler\<close>

definition defaultErrorHandler ::
  "'w collaborators \<Rightarrow> Scheduler \<Rightarrow> ISubmittableResult \<Rightarrow> 'w \<Rightarrow> (error + unit) \<times> Scheduler \<times> 'w" where
  "defaultErrorHandler env this result w =
     (let w1 = console_log env (''Tx status: '' @ status_type result) w in
      if isFinalized result then
        (case dispatchError result of
           None \<Rightarrow> (Inr (), this, w1)
         | Some (Module pallet err) \<Rightarrow>
             (case getAPIClient env this w1 of
                (Inl e, this', w2) \<Rightarrow> (Inl e, this', w2)
              | (Inr a, this', w2) \<Rightarrow>
                  (case findMetaError a pallet err of
                     Inl e \<Rightarrow> (Inl e, this', w2)
                   | Inr metaError \<Rightarrow>
                       let dispatchErrorMessage = JSON_stringify metaError;
                           errMsg = ''Transaction finalized with error by blockchain ''
                                      @ dispatchErrorMessage
                       in (Inr (), this', console_log env errMsg w2)))
         | Some (NonModule str) \<Rightarrow>
             (let errMsg = ''Transaction finalized with error by blockchain '' @ str
              in (Inr (), this, console_log env errMsg w1)))
      else (Inr (), this, w1))"

subsection \<open>sendExtrinsic\<close>

text \<open>
  The callback given to \<^verbatim>\<open>txObject.send\<close>: the default handler when \<^verbatim>\<open>handleDispatch\<close>
  is nil, the caller's handler otherwise. The caller's handler is any action on the
  world that may reject.
\<close>

type_synonym 'w handler = "ISubmittableResult \<Rightarrow> 'w \<Rightarrow> (error + unit) \<times> 'w"

type_synonym 'w callback =
  "Scheduler \<Rightarrow> ISubmittableResult \<Rightarrow> 'w \<Rightarrow> (error + unit) \<times> Scheduler \<times> 'w"

definition statusCallback :: "'w collaborators \<Rightarrow> 'w handler option \<Rightarrow> 'w callback" where
  "statusCallback env handleDispatch this result w =
     (case handleDispatch of
        None \<Rightarrow>
          defaultErrorHandler env this result (console_log env ''Using default error handler'' w)
      | Some handler \<Rightarrow>
          (case handler result (console_log env ''Using custom error handler'' w) of
             (r, w') \<Rightarrow> (r, this, w')))"

text \<open>
  Modelled from the spec: the status subscription of the chain client is not in the
  sources. Section 4.5 of the spec: a submission subscribes to a stream of status events
  until the subscription is torn down; the callback is invoked for the current event when
  the subscription is registered, and for each later event as long as the subscription
  is live. A subscription is the events still to come and whether it is live. The
  subscription does not await the promise the callback returns: a rejection of
  the callback is not passed on to whoever registered it.
\<close>

record subscription =
  pending :: "ISubmittableResult list"
  live :: bool

definition deliver :: "'w callback \<Rightarrow> ISubmittableResult \<Rightarrow> Scheduler \<times> 'w \<Rightarrow> Scheduler \<times> 'w" where
  "deliver callback event st =
     (case st of (this, w) \<Rightarrow> (case callback this event w of (r, this', w') \<Rightarrow> (this', w')))"

text \<open>
  Modelled from the spec: \<^verbatim>\<open>txObject.send(callback)\<close>, awaited. It rejects when the
  submission does; otherwise the callback has been invoked for the current event, if
  there is one, and the subscription holds the events to come.
\<close>

definition send ::
  "'w collaborators \<Rightarrow> SubmittableExtrinsic \<Rightarrow> 'w callback \<Rightarrow> Scheduler \<Rightarrow> 'w
     \<Rightarrow> (error + subscription) \<times> Scheduler \<times> 'w" where
  "send env txObject callback this w =
     (case submitAndWatch env txObject w of
        (Inl e, w') \<Rightarrow> (Inl e, this, w')
      | (Inr events, w') \<Rightarrow>
          (case fold (deliver callback) (take 1 events) (this, w') of
             (this', w'') \<Rightarrow> (Inr \<lparr>pending = drop 1 events, live = True\<rparr>, this', w'')))"

text \<open>Modelled from the spec: the function \<^verbatim>\<open>unsub\<close> tears the subscription down.\<close>

definition unsub :: "subscription \<Rightarrow> subscription" where
  "unsub s = s\<lparr>live := False\<rparr>"

text \<open>
  Modelled from the spec: what the client does with a subscription once the caller's code
  has returned: while the subscription is live, every event to come goes to the callback.
\<close>

definition run_subscription ::
  "'w callback \<Rightarrow> subscription \<Rightarrow> Scheduler \<times> 'w \<Rightarrow> Scheduler \<times> 'w" where
  "run_subscription callback s st = (if live s then fold (deliver callback) (pending s) st else st)"

text \<open>
  \<open>sendExtrinsic\<close> returns its result, the object, the world, and the subscription it
  leaves behind in the client (\<open>None\<close> when it rejects before one exists).
\<close>

definition sendExtrinsic ::
  "'w collaborators \<Rightarrow> Scheduler \<Rightarrow> string \<Rightarrow> 'w handler option \<Rightarrow> 'w
     \<Rightarrow> (error + string) \<times> Scheduler \<times> 'w \<times> subscription option" where
  "sendExtrinsic env this extrinsicHex handleDispatch w =
     (case getAPIClient env this w of
        (Inl e, this1, w1) \<Rightarrow> (Inl e, this1, w1, None)
      | (Inr polkadotApi, this1, w1) \<Rightarrow>
          (case tx polkadotApi extrinsicHex of
             Inl e \<Rightarrow> (Inl e, this1, w1, None)
           | Inr txObject \<Rightarrow>
               (case send env txObject (statusCallback env handleDispatch) this1 w1 of
                  (Inl e, this2, w2) \<Rightarrow> (Inl e, this2, w2, None)
                | (Inr subscribed, this2, w2) \<Rightarrow>
                    let torn_down = unsub subscribed
                    in (Inr (tx_hash txObject), this2, w2, Some torn_down))))"

subsection \<open>The builders\<close>

text \<open>
  The clock reading \<open>currentTime\<close> is what \<^verbatim>\<open>Date.now()\<close> returns inside
  \<open>validateTimestamps\<close>. A validation that throws ends the builder at once.
\<close>

definition buildScheduleNotifyExtrinsic ::
  "'w collaborators \<Rightarrow> Scheduler \<Rightarrow> int \<Rightarrow> string \<Rightarrow> number \<Rightarrow> number list \<Rightarrow> string \<Rightarrow> Signer
     \<Rightarrow> 'w \<Rightarrow> (error + string) \<times> Scheduler \<times> 'w" where
  "buildScheduleNotifyExtrinsic env this currentTime address providedID timestamps message signer w =
     (case validateTimestamps this currentTime timestamps of
        Inl e \<Rightarrow> (Inl e, this, w)
      | Inr _ \<Rightarrow>
          let secondTimestamps = convertToSeconds timestamps in
          (case getAPIClient env this w of
             (Inl e, this', w') \<Rightarrow> (Inl e, this', w')
           | (Inr polkadotApi, this', w') \<Rightarrow>
               let extrinsic = ScheduleNotifyTask providedID secondTimestamps message in
               (case signAsync env extrinsic address signer w' of
                  (Inl e, w'') \<Rightarrow> (Inl e, this', w'')
                | (Inr signedExtrinsic, w'') \<Rightarrow> (Inr signedExtrinsic, this', w''))))"

definition buildScheduleNativeTransferExtrinsic ::
  "'w collaborators \<Rightarrow> number \<Rightarrow> Scheduler \<Rightarrow> int \<Rightarrow> string \<Rightarrow> string \<Rightarrow> number list \<Rightarrow> string
     \<Rightarrow> number \<Rightarrow> Signer \<Rightarrow> 'w \<Rightarrow> (error + string) \<times> Scheduler \<times> 'w" where
  "buildScheduleNativeTransferExtrinsic env LOWEST_TRANSFERRABLE_AMOUNT this currentTime address
       providedID timestamps receivingAddress amount signer w =
     (case validateTimestamps this currentTime timestamps of
        Inl e \<Rightarrow> (Inl e, this, w)
      | Inr _ \<Rightarrow>
          (case validateTransferParams LOWEST_TRANSFERRABLE_AMOUNT amount address receivingAddress of
             Inl e \<Rightarrow> (Inl e, this, w)
           | Inr _ \<Rightarrow>
               let secondTimestamps = convertToSeconds timestamps in
               (case getAPIClient env this w of
                  (Inl e, this', w') \<Rightarrow> (Inl e, this', w')
                | (Inr polkadotApi, this', w') \<Rightarrow>
                    let extrinsic =
                          ScheduleNativeTransferTask providedID secondTimestamps receivingAddress amount in
                    (case signAsync env extrinsic address signer w' of
                       (Inl e, w'') \<Rightarrow> (Inl e, this', w'')
                     | (Inr signedExtrinsic, w'') \<Rightarrow> (Inr signedExtrinsic, this', w'')))))"

definition buildCancelTaskExtrinsic ::
  "'w collaborators \<Rightarrow> Scheduler \<Rightarrow> string \<Rightarrow> number \<Rightarrow> Signer
     \<Rightarrow> 'w \<Rightarrow> (error + string) \<times> Scheduler \<times> 'w" where
  "buildCancelTaskExtrinsic env this address providedID signer w =
     (case getAPIClient env this w of
        (Inl e, this', w') \<Rightarrow> (Inl e, this', w')
      | (Inr polkadotApi, this', w') \<Rightarrow>
          let extrinsic = CancelTask providedID in
          (case signAsync env extrinsic address signer w' of
             (Inl e, w'') \<Rightarrow> (Inl e, this', w'')
           | (Inr signedExtrinsic, w'') \<Rightarrow> (Inr signedExtrinsic, this', w'')))"

subsection \<open>A stub of the collaborators\<close>

text \<open>
  A test double for concrete runs: its world is the list of what was asked of it, oldest
  first. A connection appends \<open>ApiPromise.create\<close>, a signature appends \<open>signAsync\<close>
  and returns the bytes \<open>0x2a\<close>, a submission appends \<open>submitAndWatch\<close> and yields three
  status events, and \<open>console_log\<close> appends the line itself. A world that is still empty
  after a run means that no collaborator was invoked. The registry of the stub knows one
  module error, number 3 of pallet 60.
\<close>

definition stub_metaError :: RegistryError where
  "stub_metaError =
     \<lparr>err_docs = [''The task id is already in use''], err_name = ''DuplicateTask'',
      err_section = ''automationTime''\<rparr>"

definition stub_api :: ApiPromise where
  "stub_api =
     \<lparr>findMetaError =
        (\<lambda>pallet err. if pallet = 60 \<and> err = 3 then Inr stub_metaError
                       else Inl (External ''findMetaError: Unable to find Error'')),
      tx = (\<lambda>bytes. if take 2 bytes = ''0x'' then Inr \<lparr>tx_bytes = bytes, tx_hash = ''0xh'' @ drop 2 bytes\<rparr>
                     else Inl (External ''createType(Call):: unable to decode''))\<rparr>"

definition stub_events :: "ISubmittableResult list" where
  "stub_events =
     [\<lparr>status_type = ''Ready'', isFinalized = False, dispatchError = None\<rparr>,
      \<lparr>status_type = ''InBlock'', isFinalized = False, dispatchError = Some (Module 60 3)\<rparr>,
      \<lparr>status_type = ''Finalized'', isFinalized = True, dispatchError = Some (Module 60 3)\<rparr>]"

definition recording_collaborators :: "string list collaborators" where
  "recording_collaborators =
     \<lparr>ApiPromise_create = (\<lambda>w. (Inr stub_api, w @ [''ApiPromise.create''])),
      signAsync = (\<lambda>extrinsic address signer w. (Inr ''0x2a'', w @ [''signAsync''])),
      console_log = (\<lambda>line w. w @ [line]),
      submitAndWatch = (\<lambda>txObject w. (Inr stub_events, w @ [''submitAndWatch'']))\<rparr>"

section \<open>Properties\<close>

subsection \<open>Arithmetic of the remainder and of the next hour\<close>

lemma js_trunc_of_int: "js_trunc (of_int k) = k"
  by (simp add: js_trunc_def)

lemmas constant_defs = RECURRING_TASK_LIMIT_def MS_IN_SEC_def SEC_IN_MIN_def MIN_IN_HOUR_def

lemma js_trunc_nonneg_div: "0 \<le> a \<Longrightarrow> 0 < b \<Longrightarrow> js_trunc (of_int a / of_int b) = a div b"
  by (simp add: js_trunc_def floor_divide_of_int_eq)

lemma js_rem_nonneg_int:
  assumes "0 \<le> a" "0 < b"
  shows "js_rem (of_int a) (of_int b) = of_int (a mod b)"
proof -
  have "a mod b = a - b * (a div b)"
    by (simp add: minus_mult_div_eq_mod)
  then show ?thesis
    using assms by (simp add: js_rem_def js_trunc_nonneg_div)
qed

lemma nextAvailableHour_nonneg:
  assumes "0 \<le> now"
  shows "nextAvailableHour now = of_int ((now div 3600000 + 1) * 3600)"
proof -
  define q where "q = now div 3600000"
  define m where "m = now mod 3600000"
  have r: "js_rem (of_int now) 3600000 = of_int m"
    unfolding m_def using js_rem_nonneg_int [OF assms, of 3600000] by simp
  have "now = 3600000 * q + m"
    by (simp add: q_def m_def)
  then have "(of_int now :: rat) = of_int (3600000 * q + m)"
    by (rule arg_cong)
  then have n: "(of_int now :: rat) = 3600000 * of_int q + of_int m"
    by (simp only: of_int_add of_int_mult of_int_numeral)
  have "nextAvailableHour now = (of_int now - of_int m + 3600000) / 1000"
    by (simp add: nextAvailableHour_def constant_defs r)
  also have "\<dots> = (3600000 * of_int q + of_int m - of_int m + 3600000) / 1000"
    by (simp only: n)
  also have "\<dots> = of_int ((q + 1) * 3600)"
    by (simp add: algebra_simps)
  finally show ?thesis
    by (simp only: q_def)
qed

lemma js_rem_zero_iff:
  assumes "b \<noteq> 0"
  shows "js_rem a b = 0 \<longleftrightarrow> a / b \<in> \<int>"
proof
  assume "js_rem a b = 0"
  then have "a = b * of_int (js_trunc (a / b))"
    by (simp add: js_rem_def)
  then have "a / b = of_int (js_trunc (a / b))"
    using assms by (metis nonzero_mult_div_cancel_left)
  then show "a / b \<in> \<int>"
    by (metis Ints_of_int)
next
  assume "a / b \<in> \<int>"
  then obtain k where k: "a / b = of_int k"
    by (auto elim: Ints_cases)
  then have "a = b * of_int k"
    using assms by (simp add: field_simps)
  then show "js_rem a b = 0"
    by (simp add: js_rem_def k js_trunc_of_int)
qed

subsection \<open>The iteration stops at the first exception\<close>

lemma forEach_ok_iff: "forEach xs f = Inr () \<longleftrightarrow> (\<forall>x \<in> set xs. f x = Inr ())"
  by (induction xs) (auto split: sum.splits)

lemma forEach_error_iff:
  "forEach xs f = Inl e \<longleftrightarrow>
     (\<exists>i < length xs. f (xs ! i) = Inl e \<and> (\<forall>j < i. f (xs ! j) = Inr ()))"
proof (induction xs)
  case Nil
  then show ?case by simp
next
  case (Cons x xs)
  show ?case
  proof (cases "f x")
    case (Inl e')
    have "(\<exists>i < length (x # xs). f ((x # xs) ! i) = Inl e \<and> (\<forall>j < i. f ((x # xs) ! j) = Inr ())) \<longleftrightarrow> e' = e"
    proof
      assume "\<exists>i < length (x # xs). f ((x # xs) ! i) = Inl e \<and> (\<forall>j < i. f ((x # xs) ! j) = Inr ())"
      then obtain i where i: "f ((x # xs) ! i) = Inl e" "\<forall>j < i. f ((x # xs) ! j) = Inr ()"
        by blast
      show "e' = e"
      proof (cases i)
        case 0
        with i Inl show ?thesis by simp
      next
        case (Suc n)
        with i(2) have "f ((x # xs) ! 0) = Inr ()" by blast
        with Inl show ?thesis by simp
      qed
    next
      assume "e' = e"
      with Inl have "f ((x # xs) ! 0) = Inl e \<and> (\<forall>j < 0. f ((x # xs) ! j) = Inr ())"
        by simp
      then show "\<exists>i < length (x # xs). f ((x # xs) ! i) = Inl e \<and> (\<forall>j < i. f ((x # xs) ! j) = Inr ())"
        by (intro exI [of _ 0]) simp
    qed
    with Inl show ?thesis by auto
  next
    case (Inr u)
    have "(\<exists>i < length (x # xs). f ((x # xs) ! i) = Inl e \<and> (\<forall>j < i. f ((x # xs) ! j) = Inr ()))
      \<longleftrightarrow> (\<exists>i < length xs. f (xs ! i) = Inl e \<and> (\<forall>j < i. f (xs ! j) = Inr ()))"
      (is "?L \<longleftrightarrow> ?R")
    proof
      assume ?L
      then obtain i where i: "i < length (x # xs)" "f ((x # xs) ! i) = Inl e"
        "\<forall>j < i. f ((x # xs) ! j) = Inr ()"
        by blast
      from i(2) Inr obtain n where n: "i = Suc n"
        by (cases i) auto
      have "\<forall>j < n. f (xs ! j) = Inr ()"
      proof (intro allI impI)
        fix j assume "j < n"
        then have "Suc j < i" using n by simp
        with i(3) have "f ((x # xs) ! Suc j) = Inr ()" by blast
        then show "f (xs ! j) = Inr ()" by simp
      qed
      with i(1,2) n show ?R by auto
    next
      assume ?R
      then obtain i where i: "i < length xs" "f (xs ! i) = Inl e" "\<forall>j < i. f (xs ! j) = Inr ()"
        by blast
      have "\<forall>j < Suc i. f ((x # xs) ! j) = Inr ()"
      proof (intro allI impI)
        fix j assume "j < Suc i"
        then show "f ((x # xs) ! j) = Inr ()"
          using Inr i(3) by (cases j) auto
      qed
      with i(1,2) show ?L
        by (intro exI [of _ "Suc i"]) simp
    qed
    with Inr Cons.IH show ?thesis by simp
  qed
qed

subsection \<open>Helper facts about the validators\<close>

lemma validateTimestamps_admissible:
  "length ts \<le> 24 \<Longrightarrow> validateTimestamps this now ts = forEach ts (checkTimestamp this now)"
  by (simp add: validateTimestamps_def RECURRING_TASK_LIMIT_def)

lemma validateTimestamps_too_many:
  "24 < length ts \<Longrightarrow> validateTimestamps this now ts = Inl TooManyTasks"
  by (simp add: validateTimestamps_def RECURRING_TASK_LIMIT_def)

lemma checkTimestamp_past_iff:
  "checkTimestamp this now t = Inl TimestampInPast \<longleftrightarrow> t < nextAvailableHour now"
  by (simp add: checkTimestamp_def)

lemma checkTimestamp_unaligned:
  assumes "t / 3600 \<notin> \<int>"
  shows "checkTimestamp this now t =
    (if t < nextAvailableHour now then Inl TimestampInPast else Inl NotHourAligned)"
proof -
  have "js_rem t 3600 \<noteq> 0"
    using assms js_rem_zero_iff [of 3600 t] by simp
  then show ?thesis
    by (simp add: checkTimestamp_def SEC_IN_MIN_def MIN_IN_HOUR_def)
qed

lemma next_hour_after_now:
  assumes "0 \<le> (now::int)"
  shows "now < (now div 3600000 + 1) * 3600 * 1000"
proof -
  define q where "q = now div 3600000"
  have "now mod 3600000 < 3600000"
    by simp
  moreover have "now = 3600000 * q + now mod 3600000"
    by (simp add: q_def)
  moreover have "(q + 1) * 3600 * 1000 = 3600000 * q + 3600000"
    by (simp add: algebra_simps)
  ultimately have "now < (q + 1) * 3600 * 1000"
    by linarith
  then show ?thesis
    by (simp only: q_def)
qed

lemma next_hour_least:
  assumes "3600 dvd (h::int)" and "now < h * 1000"
  shows "(now div 3600000 + 1) * 3600 \<le> h"
proof -
  from assms(1) obtain k where k: "h = 3600 * k" ..
  with assms(2) have "now < k * 3600000"
    by simp
  then have "now div 3600000 < k"
    by (simp add: div_less_iff_less_mult)
  with k show ?thesis
    by simp
qed

subsection \<open>The connection is made once\<close>

lemma getAPIClient_connected:
  "getAPIClient env this w = (Inr a, this', w') \<Longrightarrow> api this' = Some a"
  by (auto simp: getAPIClient_def split: option.splits prod.splits sum.splits)

lemma getAPIClient_cached:
  "api this = Some a \<Longrightarrow> getAPIClient env this w = (Inr a, this, w)"
  by (simp add: getAPIClient_def)

subsection \<open>Rounding to the nearest double\<close>

lemma bitlen_bounds_rat:
  assumes "0 < x"
  shows "power_int 2 (bitlen x - 1) \<le> (of_int x :: rat)" and "(of_int x :: rat) < power_int 2 (bitlen x)"
proof -
  have b: "2 ^ nat (bitlen x - 1) \<le> x" "x < 2 ^ nat (bitlen x)"
    using bitlen_bounds [OF assms] by simp_all
  have p: "1 \<le> bitlen x"
    using assms by (simp add: bitlen_alt_def)
  have "(of_int (2 ^ nat (bitlen x - 1)) :: rat) \<le> of_int x"
    using b(1) by (simp only: of_int_le_iff)
  then show "power_int 2 (bitlen x - 1) \<le> (of_int x :: rat)"
    using p by (simp add: power_int_nonneg_exp)
  have "(of_int x :: rat) < of_int (2 ^ nat (bitlen x))"
    using b(2) by (simp only: of_int_less_iff)
  then show "(of_int x :: rat) < power_int 2 (bitlen x)"
    using p by (simp add: power_int_nonneg_exp)
qed

lemma binary_exponent_bounds:
  assumes "q \<noteq> 0"
  shows "power_int 2 (binary_exponent q) \<le> \<bar>q\<bar>" and "\<bar>q\<bar> < power_int 2 (binary_exponent q + 1)"
proof -
  obtain a b where ab: "quotient_of \<bar>q\<bar> = (a, b)"
    by (cases "quotient_of \<bar>q\<bar>")
  have b: "0 < b"
    using ab quotient_of_denom_pos by blast
  have q: "\<bar>q\<bar> = of_int a / of_int b"
    using ab quotient_of_div by blast
  have "0 < \<bar>q\<bar>"
    using assms by simp
  then have a: "0 < a"
    using b q by (simp add: zero_less_divide_iff)
  define d where "d = bitlen a - bitlen b"
  note A = bitlen_bounds_rat [OF a] and B = bitlen_bounds_rat [OF b]
  have bpos: "(0::rat) < of_int b"
    using b by simp
  have "\<bar>q\<bar> < power_int 2 (bitlen a) / power_int 2 (bitlen b - 1)"
  proof -
    have "of_int a / of_int b < power_int 2 (bitlen a) / (of_int b :: rat)"
      using A(2) bpos by (simp add: divide_strict_right_mono)
    also have "\<dots> \<le> power_int 2 (bitlen a) / power_int 2 (bitlen b - 1)"
      using B(1) by (simp add: frac_le)
    finally show ?thesis
      by (simp only: q)
  qed
  also have "power_int 2 (bitlen a) / power_int (2::rat) (bitlen b - 1) = power_int 2 (d + 1)"
    by (simp add: d_def power_int_diff [symmetric] algebra_simps)
  finally have up: "\<bar>q\<bar> < power_int 2 (d + 1)" .
  have "power_int 2 (bitlen a - 1) / power_int 2 (bitlen b) < \<bar>q\<bar>"
  proof -
    have "power_int 2 (bitlen a - 1) / power_int 2 (bitlen b) < power_int 2 (bitlen a - 1) / (of_int b :: rat)"
      using B(2) bpos by (simp add: divide_strict_left_mono)
    also have "\<dots> \<le> of_int a / of_int b"
      using A(1) bpos by (simp add: divide_right_mono)
    finally show ?thesis
      by (simp only: q)
  qed
  moreover have "power_int 2 (bitlen a - 1) / power_int (2::rat) (bitlen b) = power_int 2 (d - 1)"
    by (simp add: d_def power_int_diff [symmetric] algebra_simps)
  ultimately have lo: "power_int 2 (d - 1) < \<bar>q\<bar>"
    by simp
  have e: "binary_exponent q = (if power_int 2 d \<le> \<bar>q\<bar> then d else d - 1)"
    by (simp add: binary_exponent_def ab d_def)
  show "power_int 2 (binary_exponent q) \<le> \<bar>q\<bar>"
    using lo by (simp add: e)
  show "\<bar>q\<bar> < power_int 2 (binary_exponent q + 1)"
    using up by (auto simp: e)
qed

lemma round_half_even_of_int: "round_half_even (of_int n) = n"
  by (simp add: round_half_even_def)

lemma to_double_exact:
  assumes "q / ulp q \<in> \<int>"
  shows "to_double q = q"
proof -
  from assms obtain n where n: "q / ulp q = of_int n"
    by (auto elim: Ints_cases)
  have "ulp q \<noteq> 0"
    by (simp add: ulp_def)
  with n have "q = of_int n * ulp q"
    by (simp add: field_simps)
  then show ?thesis
    by (simp add: to_double_def n round_half_even_of_int)
qed

lemma to_double_zero: "to_double 0 = 0"
  by (simp add: to_double_def round_half_even_def)

lemma power_int_2_less_imp:
  assumes "power_int (2::rat) a < power_int 2 b"
  shows "a < b"
proof (rule ccontr)
  assume "\<not> a < b"
  then have "power_int (2::rat) b \<le> power_int 2 a"
    by (intro power_int_increasing) simp_all
  with assms show False
    by simp
qed

lemma binary_exponent_int:
  assumes "n \<noteq> 0" and "\<bar>n\<bar> < 2 ^ 53"
  shows "0 \<le> binary_exponent (of_int n)" and "binary_exponent (of_int n) \<le> 52"
proof -
  let ?e = "binary_exponent (of_int n)"
  have nz: "(of_int n :: rat) \<noteq> 0"
    using assms(1) by simp
  note B = binary_exponent_bounds [OF nz]
  have "1 \<le> \<bar>n\<bar>"
    using assms(1) by simp
  then have "(of_int 1 :: rat) \<le> of_int \<bar>n\<bar>"
    by (simp only: of_int_le_iff)
  then have "(1::rat) \<le> \<bar>of_int n\<bar>"
    by simp
  with B(2) have "power_int (2::rat) 0 < power_int 2 (?e + 1)"
    by simp
  then have "0 < ?e + 1"
    by (rule power_int_2_less_imp)
  then show "0 \<le> ?e"
    by simp
  have "(of_int \<bar>n\<bar> :: rat) < of_int (2 ^ 53)"
    using assms(2) by (simp only: of_int_less_iff)
  then have "\<bar>of_int n :: rat\<bar> < power_int 2 53"
    by simp
  with B(1) have "power_int (2::rat) ?e < power_int 2 53"
    by (rule le_less_trans)
  then have "?e < 53"
    by (rule power_int_2_less_imp)
  then show "?e \<le> 52"
    by simp
qed

lemma to_double_int:
  assumes "\<bar>n\<bar> < 2 ^ 53"
  shows "to_double (of_int n) = of_int n"
proof (cases "n = 0")
  case True
  then show ?thesis
    by (simp add: to_double_zero)
next
  case False
  define e where "e = binary_exponent (of_int n)"
  have e: "0 \<le> e" "e \<le> 52"
    using binary_exponent_int [OF False assms] by (simp_all add: e_def)
  have u: "ulp (of_int n) = power_int 2 (e - 52)"
    using e by (simp add: ulp_def e_def [symmetric] max_def)
  have "power_int (2::rat) (e - 52) = 1 / power_int 2 (52 - e)"
    using power_int_minus_divide [of "2::rat" "52 - e"] by simp
  also have "power_int (2::rat) (52 - e) = 2 ^ nat (52 - e)"
    using e by (simp add: power_int_nonneg_exp)
  finally have "of_int n / ulp (of_int n) = (of_int (n * 2 ^ nat (52 - e)) :: rat)"
    by (simp add: u)
  then have "of_int n / ulp (of_int n) \<in> (\<int> :: rat set)"
    by (simp only: Ints_of_int)
  then show ?thesis
    by (rule to_double_exact)
qed

lemma round_half_even_error: "\<bar>of_int (round_half_even q) - q\<bar> \<le> 1 / 2"
proof -
  have "of_int \<lfloor>q\<rfloor> \<le> q" "q < of_int \<lfloor>q\<rfloor> + 1"
    by linarith+
  then show ?thesis
    by (auto simp: round_half_even_def Let_def)
qed

lemma ulp_pos: "0 < ulp q"
  by (simp add: ulp_def)

lemma to_double_error: "\<bar>to_double q - q\<bar> \<le> ulp q / 2"
proof -
  have "to_double q - q = (of_int (round_half_even (q / ulp q)) - q / ulp q) * ulp q"
    using ulp_pos [of q] by (simp add: to_double_def field_simps)
  then have "\<bar>to_double q - q\<bar> = \<bar>of_int (round_half_even (q / ulp q)) - q / ulp q\<bar> * ulp q"
    using ulp_pos [of q] by (simp add: abs_mult)
  also have "\<dots> \<le> 1 / 2 * ulp q"
    using round_half_even_error [of "q / ulp q"] ulp_pos [of q] by (simp add: mult_right_mono)
  finally show ?thesis
    by simp
qed

lemma js_div_whole:
  assumes "\<bar>k\<bar> < 2 ^ 53" and "b \<noteq> 0"
  shows "js_div (of_int k * b) b = of_int k"
  using assms by (simp add: js_div_def to_double_int)

subsection \<open>C8: convertToSeconds\<close>

text \<open>
  Claim C8. \<open>convertToSeconds\<close> keeps the length and the order and treats each element
  on its own: the element at index \<open>i\<close> of the result is the element at index \<open>i\<close> of the
  input divided by 1000 when it strictly exceeds 100000000000, and the same element
  otherwise; so the result of a concatenation is the concatenation of the results. The
  division is that of the language, on doubles: the result is a double at most half a
  unit in the last place away from the exact quotient, and it is the exact quotient
  whenever the input is a whole number of seconds below \<open>2^53\<close>. On \<open>[1700000000000]\<close>
  and on \<open>[1700000000]\<close> the result is \<open>[1700000000]\<close>.
\<close>

theorem convertToSeconds_double_division:
  "length (convertToSeconds ts) = length ts \<and>
   (\<forall>i < length ts. convertToSeconds ts ! i =
      (if ts ! i > 100000000000 then js_div (ts ! i) 1000 else ts ! i)) \<and>
   convertToSeconds (ts @ us) = convertToSeconds ts @ convertToSeconds us \<and>
   (\<forall>x. \<bar>js_div x 1000 - x / 1000\<bar> \<le> ulp (x / 1000) / 2 \<and>
        js_div x 1000 / ulp (x / 1000) \<in> \<int>) \<and>
   (\<forall>k::int. \<bar>k\<bar> < 2 ^ 53 \<longrightarrow> js_div (of_int k * 1000) 1000 = of_int k) \<and>
   convertToSeconds [1700000000000] = [1700000000] \<and>
   convertToSeconds [1700000000] = [1700000000]"
proof (intro conjI allI impI)
  show "length (convertToSeconds ts) = length ts"
    by (simp add: convertToSeconds_def)
  show "convertToSeconds (ts @ us) = convertToSeconds ts @ convertToSeconds us"
    by (simp add: convertToSeconds_def)
  have "js_div (of_int 1700000000 * 1000) 1000 = of_int 1700000000"
    by (rule js_div_whole) simp_all
  then have "js_div 1700000000000 1000 = 1700000000"
    by simp
  then show "convertToSeconds [1700000000000] = [1700000000]"
    by (simp add: convertToSeconds_def MS_IN_SEC_def)
  show "convertToSeconds [1700000000] = [1700000000]"
    by (simp add: convertToSeconds_def)
next
  fix i assume "i < length ts"
  then show "convertToSeconds ts ! i =
      (if ts ! i > 100000000000 then js_div (ts ! i) 1000 else ts ! i)"
    by (simp add: convertToSeconds_def MS_IN_SEC_def)
next
  fix x :: rat
  show "\<bar>js_div x 1000 - x / 1000\<bar> \<le> ulp (x / 1000) / 2"
    unfolding js_div_def by (rule to_double_error)
  have "ulp (x / 1000) \<noteq> 0"
    using ulp_pos [of "x / 1000"] by simp
  then have "js_div x 1000 / ulp (x / 1000) = of_int (round_half_even (x / 1000 / ulp (x / 1000)))"
    by (simp add: js_div_def to_double_def)
  then show "js_div x 1000 / ulp (x / 1000) \<in> \<int>"
    by (simp only: Ints_of_int)
next
  fix k :: int assume "\<bar>k\<bar> < 2 ^ 53"
  then show "js_div (of_int k * 1000) 1000 = of_int k"
    by (rule js_div_whole) simp
qed

text \<open>
  The threshold itself, 100000000000, is left unchanged. One millisecond above it the
  quotient 100000000.001 is not a double: the result is the nearest one,
  6710886400067109 / 2^26.
\<close>

theorem convertToSeconds_double_division_witness:
  "convertToSeconds [1700000000000, 1700000000, 100000000000, 100000000001] ! 0 = 1700000000 \<and>
   convertToSeconds [1700000000000, 1700000000, 100000000000, 100000000001] ! 1 = 1700000000 \<and>
   convertToSeconds [1700000000000, 1700000000, 100000000000, 100000000001] ! 2 = 100000000000 \<and>
   convertToSeconds [1700000000000, 1700000000, 100000000000, 100000000001] ! 3
     = 6710886400067109 / 67108864 \<and>
   js_div 1700000002000 1000 = 1700000002"
proof -
  let ?ts = "[1700000000000, 1700000000, 100000000000, 100000000001 :: rat]"
  note t = convertToSeconds_double_division [of ?ts "[]"]
  have a: "js_div 1700000000000 1000 = 1700000000"
    by code_simp
  have b: "js_div 100000000001 1000 = 6710886400067109 / 67108864"
    by code_simp
  from t have el: "\<forall>i < length ?ts. convertToSeconds ?ts ! i =
      (if ?ts ! i > 100000000000 then js_div (?ts ! i) 1000 else ?ts ! i)"
    by (elim conjE)
  from t have whole: "\<forall>k::int. \<bar>k\<bar> < 2 ^ 53 \<longrightarrow> js_div (of_int k * 1000) 1000 = of_int k"
    by (elim conjE)
  have "convertToSeconds ?ts ! 0 = 1700000000"
    using el [rule_format, of 0] a by simp
  moreover have "convertToSeconds ?ts ! 1 = 1700000000"
    using el [rule_format, of 1] by simp
  moreover have "convertToSeconds ?ts ! 2 = 100000000000"
    using el [rule_format, of 2] by simp
  moreover have "convertToSeconds ?ts ! 3 = 6710886400067109 / 67108864"
    using el [rule_format, of 3] b by simp
  moreover have "js_div 1700000002000 1000 = 1700000002"
    using whole [rule_format, of 1700000002] by simp
  ultimately show ?thesis
    by (intro conjI)
qed

subsection \<open>C5: cardinality first, then the first violation in input order\<close>

text \<open>
  Claim C5. A sequence of more than 24 timestamps fails with \<open>TooManyTasks\<close> whatever
  its values. Otherwise \<open>validateTimestamps\<close> succeeds exactly when every timestamp passes
  the three checks of the callback, and it fails with the error \<open>e\<close> exactly when some
  timestamp fails with \<open>e\<close> and every timestamp before it passes: one error, that of the
  first violation in input order.
\<close>

theorem validateTimestamps_first_violation:
  "(length ts > 24 \<longrightarrow> validateTimestamps this now ts = Inl TooManyTasks) \<and>
   (length ts \<le> 24 \<longrightarrow>
      (validateTimestamps this now ts = Inr () \<longleftrightarrow>
         (\<forall>i < length ts. checkTimestamp this now (ts ! i) = Inr ())) \<and>
      (\<forall>e. validateTimestamps this now ts = Inl e \<longleftrightarrow>
         (\<exists>i < length ts. checkTimestamp this now (ts ! i) = Inl e \<and>
            (\<forall>j < i. checkTimestamp this now (ts ! j) = Inr ()))))"
proof (intro conjI impI allI)
  assume "24 < length ts"
  then show "validateTimestamps this now ts = Inl TooManyTasks"
    by (rule validateTimestamps_too_many)
next
  assume "length ts \<le> 24"
  then show "validateTimestamps this now ts = Inr () \<longleftrightarrow>
      (\<forall>i < length ts. checkTimestamp this now (ts ! i) = Inr ())"
    by (simp add: validateTimestamps_admissible forEach_ok_iff all_set_conv_all_nth)
next
  fix e
  assume "length ts \<le> 24"
  then show "validateTimestamps this now ts = Inl e \<longleftrightarrow>
      (\<exists>i < length ts. checkTimestamp this now (ts ! i) = Inl e \<and>
         (\<forall>j < i. checkTimestamp this now (ts ! j) = Inr ()))"
    by (simp add: validateTimestamps_admissible forEach_error_iff)
qed

text \<open>
  With the clock at 1700000000000 ms the next hour is 1700002800 s. The third timestamp
  of \<open>[1700006400, 1700010001, 5]\<close> is in the past, but the error reported is that of
  the second.
\<close>

theorem validateTimestamps_first_violation_witness:
  "validateTimestamps \<lparr>schedulingTimeLimit = 2592000000, api = None\<rparr> 1700000000000
     (replicate 25 1700006400) = Inl TooManyTasks \<and>
   validateTimestamps \<lparr>schedulingTimeLimit = 2592000000, api = None\<rparr> 1700000000000
     [1700006400, 1700010001, 5] = Inl NotHourAligned \<and>
   validateTimestamps \<lparr>schedulingTimeLimit = 2592000000, api = None\<rparr> 1700000000000
     [1700006400, 1700010000] = Inr ()"
proof -
  let ?S = "\<lparr>schedulingTimeLimit = 2592000000, api = None\<rparr>"
  let ?now = "1700000000000 :: int"
  have a: "checkTimestamp ?S ?now 1700006400 = Inr ()"
    by code_simp
  have b: "checkTimestamp ?S ?now 1700010001 = Inl NotHourAligned"
    by code_simp
  have c: "checkTimestamp ?S ?now 1700010000 = Inr ()"
    by code_simp
  have "validateTimestamps ?S ?now (replicate 25 1700006400) = Inl TooManyTasks"
    using validateTimestamps_first_violation [of "replicate 25 1700006400" ?S ?now] by simp
  moreover have "validateTimestamps ?S ?now [1700006400, 1700010001, 5] = Inl NotHourAligned"
  proof -
    have "\<exists>i < length [1700006400, 1700010001, 5 :: rat].
        checkTimestamp ?S ?now ([1700006400, 1700010001, 5] ! i) = Inl NotHourAligned \<and>
        (\<forall>j < i. checkTimestamp ?S ?now ([1700006400, 1700010001, 5] ! j) = Inr ())"
      using a b by (intro exI [of _ 1]) simp
    then show ?thesis
      using validateTimestamps_first_violation [of "[1700006400, 1700010001, 5]" ?S ?now] by simp
  qed
  moreover have "validateTimestamps ?S ?now [1700006400, 1700010000] = Inr ()"
  proof -
    have "\<forall>i < length [1700006400, 1700010000 :: rat].
        checkTimestamp ?S ?now ([1700006400, 1700010000] ! i) = Inr ()"
      using a c by (simp add: less_Suc_eq)
    then show ?thesis
      using validateTimestamps_first_violation [of "[1700006400, 1700010000]" ?S ?now] by simp
  qed
  ultimately show ?thesis
    by simp
qed

subsection \<open>C1: the horizon check compares seconds with milliseconds\<close>

text \<open>
  Claim C1 asks for the horizon check in seconds, like the alignment check and the
  comparison with the next hour. The code compares the timestamp, in seconds, with
  \<^verbatim>\<open>currentTime + this.schedulingTimeLimit\<close>, in milliseconds. With the clock at
  1700000000000 ms and a horizon of 30 days (2592000000 ms), the hour-aligned timestamp
  1800000000 s lies more than three years after the clock and 1702594800 s lies 2800 s
  beyond the horizon; both exceed now + horizon in seconds, and both are accepted.
\<close>

theorem validateTimestamps_horizon_in_milliseconds:
  "validateTimestamps \<lparr>schedulingTimeLimit = 2592000000, api = None\<rparr> 1700000000000 [1800000000]
     = Inr () \<and>
   (1800000000 :: rat) > of_int 1700000000000 / 1000 + 2592000000 / 1000 \<and>
   validateTimestamps \<lparr>schedulingTimeLimit = 2592000000, api = None\<rparr> 1700000000000 [1702594800]
     = Inr () \<and>
   (1702594800 :: rat) > of_int 1700000000000 / 1000 + 2592000000 / 1000"
  by (intro conjI; code_simp)

subsection \<open>C2: the next hour is strictly after the clock\<close>

text \<open>
  Claim C2, amended. For a clock reading \<open>now \<ge> 0\<close> (milliseconds), \<open>nextAvailableHour\<close>
  is the smallest hour-aligned instant (in seconds) strictly greater than the clock. For
  a sequence of at most 24 timestamps, \<open>validateTimestamps\<close> fails with
  \<open>TimestampInPast\<close> exactly when some timestamp is strictly less than that instant and
  every timestamp before it passes the three checks. When the clock is itself
  hour-aligned, a timestamp equal to the clock fails with \<open>TimestampInPast\<close>.
\<close>

theorem validateTimestamps_in_past:
  assumes "0 \<le> now" and "length ts \<le> 24"
  shows "(\<exists>k::int. nextAvailableHour now = of_int (3600 * k)) \<and>
         of_int now < nextAvailableHour now * 1000 \<and>
         (\<forall>h::int. 3600 dvd h \<and> now < h * 1000 \<longrightarrow> nextAvailableHour now \<le> of_int h) \<and>
         (validateTimestamps this now ts = Inl TimestampInPast \<longleftrightarrow>
            (\<exists>i < length ts. ts ! i < nextAvailableHour now \<and>
               (\<forall>j < i. checkTimestamp this now (ts ! j) = Inr ()))) \<and>
         (3600000 dvd now \<longrightarrow>
            validateTimestamps this now [of_int now / 1000] = Inl TimestampInPast)"
proof (intro conjI allI impI)
  note nh = nextAvailableHour_nonneg [OF assms(1)]
  show "\<exists>k::int. nextAvailableHour now = of_int (3600 * k)"
    by (rule exI [of _ "now div 3600000 + 1"]) (simp add: nh mult.commute)
  have "(of_int now :: rat) < of_int ((now div 3600000 + 1) * 3600 * 1000)"
    using next_hour_after_now [OF assms(1)] by (simp only: of_int_less_iff)
  then show "of_int now < nextAvailableHour now * 1000"
    by (simp add: nh)
  show "validateTimestamps this now ts = Inl TimestampInPast \<longleftrightarrow>
      (\<exists>i < length ts. ts ! i < nextAvailableHour now \<and>
         (\<forall>j < i. checkTimestamp this now (ts ! j) = Inr ()))"
    using assms(2)
    by (simp add: validateTimestamps_admissible forEach_error_iff checkTimestamp_past_iff)
next
  fix h :: int
  assume "3600 dvd h \<and> now < h * 1000"
  then have "(now div 3600000 + 1) * 3600 \<le> h"
    using next_hour_least by blast
  then have "(of_int ((now div 3600000 + 1) * 3600) :: rat) \<le> of_int h"
    by (simp only: of_int_le_iff)
  then show "nextAvailableHour now \<le> of_int h"
    by (simp only: nextAvailableHour_nonneg [OF assms(1)])
next
  assume "3600000 dvd now"
  then obtain q where q: "now = 3600000 * q" ..
  have "(of_int now :: rat) / 1000 = of_int (3600 * q)"
    by (simp add: q)
  moreover have "nextAvailableHour now = of_int ((q + 1) * 3600)"
    using nextAvailableHour_nonneg [OF assms(1)] by (simp add: q)
  moreover have "(of_int (3600 * q) :: rat) < of_int ((q + 1) * 3600)"
    by (simp only: of_int_less_iff) simp
  ultimately have "(of_int now :: rat) / 1000 < nextAvailableHour now"
    by simp
  then have "checkTimestamp this now (of_int now / 1000) = Inl TimestampInPast"
    by (simp only: checkTimestamp_past_iff)
  then show "validateTimestamps this now [of_int now / 1000] = Inl TimestampInPast"
    by (simp add: validateTimestamps_admissible)
qed

text \<open>
  The claim as stated fails twice. The clock 1700002800000 ms is hour-aligned, and the
  timestamp 1700002800 s, equal to it, is rejected as in the past. And in
  \<open>[1700006401, 0]\<close> the timestamp 0 is before the next hour, yet the error is
  \<open>NotHourAligned\<close>, raised by the timestamp before it.
\<close>

theorem validateTimestamps_in_past_counterexample:
  "validateTimestamps \<lparr>schedulingTimeLimit = 2592000000, api = None\<rparr> 1700002800000 [1700002800]
     = Inl TimestampInPast \<and>
   js_rem 1700002800000 3600000 = 0 \<and>
   validateTimestamps \<lparr>schedulingTimeLimit = 2592000000, api = None\<rparr> 1700002800000
     [1700006401, 0] = Inl NotHourAligned \<and>
   (0 :: rat) < nextAvailableHour 1700002800000"
  by (intro conjI; code_simp)

text \<open>An instance with an hour-aligned clock.\<close>

theorem validateTimestamps_in_past_witness:
  "nextAvailableHour 1700002800000 = 1700006400 \<and>
   validateTimestamps \<lparr>schedulingTimeLimit = 2592000000, api = None\<rparr> 1700002800000
     [1700006400, 1700002800] = Inl TimestampInPast \<and>
   validateTimestamps \<lparr>schedulingTimeLimit = 2592000000, api = None\<rparr> 1700002800000
     [of_int 1700002800000 / 1000] = Inl TimestampInPast"
proof -
  let ?S = "\<lparr>schedulingTimeLimit = 2592000000, api = None\<rparr>"
  let ?now = "1700002800000 :: int"
  let ?ts = "[1700006400, 1700002800 :: rat]"
  note t = validateTimestamps_in_past [of ?now ?ts ?S]
  have n: "nextAvailableHour ?now = 1700006400"
    by code_simp
  have a: "checkTimestamp ?S ?now 1700006400 = Inr ()"
    by code_simp
  have "\<exists>i < length ?ts. ?ts ! i < nextAvailableHour ?now \<and>
      (\<forall>j < i. checkTimestamp ?S ?now (?ts ! j) = Inr ())"
    using a n by (intro exI [of _ 1]) simp
  then have "validateTimestamps ?S ?now ?ts = Inl TimestampInPast"
    using t by simp
  moreover have "validateTimestamps ?S ?now [of_int ?now / 1000] = Inl TimestampInPast"
    using t by simp
  ultimately show ?thesis
    using n by simp
qed

subsection \<open>C9: a timestamp that is not a multiple of 3600\<close>

text \<open>
  Claim C9, amended. When a sequence of at most 24 timestamps holds, at index \<open>i\<close>, a
  value that is not a multiple of 3600, \<open>validateTimestamps\<close> fails. The error is
  \<open>NotHourAligned\<close> when that value is not before the next hour and every timestamp
  before it passes the three checks.
\<close>

theorem validateTimestamps_unaligned:
  assumes "length ts \<le> 24" and "i < length ts" and "ts ! i / 3600 \<notin> \<int>"
  shows "(\<exists>e. validateTimestamps this now ts = Inl e) \<and>
         ((\<forall>j < i. checkTimestamp this now (ts ! j) = Inr ()) \<and> nextAvailableHour now \<le> ts ! i
            \<longrightarrow> validateTimestamps this now ts = Inl NotHourAligned)"
proof (intro conjI impI)
  have bad: "checkTimestamp this now (ts ! i) \<noteq> Inr ()"
    by (simp add: checkTimestamp_unaligned [OF assms(3)])
  have "validateTimestamps this now ts \<noteq> Inr ()"
  proof
    assume "validateTimestamps this now ts = Inr ()"
    then have "\<forall>x \<in> set ts. checkTimestamp this now x = Inr ()"
      using assms(1) by (simp add: validateTimestamps_admissible forEach_ok_iff)
    with assms(2) bad show False
      by simp
  qed
  then show "\<exists>e. validateTimestamps this now ts = Inl e"
    by (cases "validateTimestamps this now ts") auto
next
  assume h: "(\<forall>j < i. checkTimestamp this now (ts ! j) = Inr ()) \<and> nextAvailableHour now \<le> ts ! i"
  then have "checkTimestamp this now (ts ! i) = Inl NotHourAligned"
    by (simp add: checkTimestamp_unaligned [OF assms(3)])
  with h assms(2) have "\<exists>i < length ts. checkTimestamp this now (ts ! i) = Inl NotHourAligned \<and>
      (\<forall>j < i. checkTimestamp this now (ts ! j) = Inr ())"
    by blast
  then show "validateTimestamps this now ts = Inl NotHourAligned"
    using assms(1) by (simp only: validateTimestamps_admissible forEach_error_iff)
qed

text \<open>
  The claim as stated fails: the check against the next hour comes first, so the
  timestamp 1 is reported as in the past; and an earlier timestamp that violates
  another rule is reported instead.
\<close>

theorem validateTimestamps_unaligned_counterexample:
  "validateTimestamps \<lparr>schedulingTimeLimit = 2592000000, api = None\<rparr> 1700000000000 [1]
     = Inl TimestampInPast \<and>
   js_rem 1 3600 \<noteq> 0 \<and>
   validateTimestamps \<lparr>schedulingTimeLimit = 2592000000, api = None\<rparr> 1700000000000
     [1800000000000, 1700003601] = Inl TooFarInFuture \<and>
   js_rem 1700003601 3600 \<noteq> 0"
  by (intro conjI; code_simp)

text \<open>An instance: the second timestamp is one second after an hour.\<close>

theorem validateTimestamps_unaligned_witness:
  "validateTimestamps \<lparr>schedulingTimeLimit = 2592000000, api = None\<rparr> 1700000000000
     [1700006400, 1700010001] = Inl NotHourAligned"
proof -
  let ?S = "\<lparr>schedulingTimeLimit = 2592000000, api = None\<rparr>"
  let ?now = "1700000000000 :: int"
  let ?ts = "[1700006400, 1700010001 :: rat]"
  have u: "?ts ! 1 / 3600 \<notin> \<int>"
    using js_rem_zero_iff [of 3600 "1700010001"] by (simp add: js_rem_def js_trunc_def) 
  have a: "checkTimestamp ?S ?now 1700006400 = Inr ()"
    by code_simp
  have n: "nextAvailableHour ?now \<le> 1700010001"
    by code_simp
  show ?thesis
    using validateTimestamps_unaligned [of ?ts 1 ?S ?now] u a n by simp
qed

subsection \<open>C4: the amount is checked before the addresses\<close>

text \<open>
  Claim C4, amended. \<open>validateTransferParams\<close> fails with \<open>AmountTooLow\<close> whenever the
  amount is below the lowest transferable amount, whatever the addresses; it fails with
  \<open>SelfTransfer\<close> whenever the two addresses are equal and the amount is not below the
  lowest transferable amount; otherwise it succeeds.
\<close>

theorem validateTransferParams_order:
  "(amount < lowest \<longrightarrow> validateTransferParams lowest amount sender recipient = Inl AmountTooLow) \<and>
   (\<not> amount < lowest \<and> sender = recipient \<longrightarrow>
      validateTransferParams lowest amount sender recipient = Inl SelfTransfer) \<and>
   (\<not> amount < lowest \<and> sender \<noteq> recipient \<longrightarrow>
      validateTransferParams lowest amount sender recipient = Inr ())"
  by (simp add: validateTransferParams_def)

text \<open>
  The claim as stated fails: a transfer to oneself of an amount that is too low is
  reported as \<open>AmountTooLow\<close>, so the self-transfer error depends on the amount.
\<close>

theorem validateTransferParams_order_counterexample:
  "validateTransferParams 1000000000 0 ''alice'' ''alice'' = Inl AmountTooLow"
  by code_simp

text \<open>The three outcomes, with 1000000000 as the lowest transferable amount.\<close>

theorem validateTransferParams_order_witness:
  "validateTransferParams 1000000000 999999999 ''alice'' ''alice'' = Inl AmountTooLow \<and>
   validateTransferParams 1000000000 1000000000 ''alice'' ''alice'' = Inl SelfTransfer \<and>
   validateTransferParams 1000000000 1000000000 ''alice'' ''bob'' = Inr ()"
  using validateTransferParams_order [of 999999999 1000000000 "''alice''" "''alice''"]
    validateTransferParams_order [of 1000000000 1000000000 "''alice''" "''alice''"]
    validateTransferParams_order [of 1000000000 1000000000 "''alice''" "''bob''"]
  by simp

subsection \<open>C6: a builder that rejects its input touches nothing\<close>

text \<open>
  Claim C6. Whatever the collaborators and the state of the world, when
  \<open>validateTimestamps\<close> fails both builders return its error, and when
  \<open>validateTransferParams\<close> fails the transfer builder returns its error; in each case
  the object and the world come back as they were: \<open>api\<close> is not set (no connection), and
  neither \<open>ApiPromise_create\<close> nor \<open>signAsync\<close> has acted on the world (nothing assembled,
  nothing signed).
\<close>

theorem builders_validate_before_network:
  "(validateTimestamps this now ts = Inl e \<longrightarrow>
      buildScheduleNotifyExtrinsic env this now address providedID ts message signer w
        = (Inl e, this, w) \<and>
      buildScheduleNativeTransferExtrinsic env lowest this now address providedID' ts recipient
        amount signer w = (Inl e, this, w)) \<and>
   (validateTimestamps this now ts = Inr () \<and>
    validateTransferParams lowest amount address recipient = Inl e \<longrightarrow>
      buildScheduleNativeTransferExtrinsic env lowest this now address providedID' ts recipient
        amount signer w = (Inl e, this, w))"
  by (simp add: buildScheduleNotifyExtrinsic_def buildScheduleNativeTransferExtrinsic_def)

text \<open>With the stub, the record of invocations stays empty.\<close>

theorem builders_validate_before_network_witness:
  "buildScheduleNotifyExtrinsic recording_collaborators
     \<lparr>schedulingTimeLimit = 2592000000, api = None\<rparr> 1700000000000
     ''alice'' 7 [1700006401] ''ping'' ''extension'' []
     = (Inl NotHourAligned, \<lparr>schedulingTimeLimit = 2592000000, api = None\<rparr>, []) \<and>
   buildScheduleNativeTransferExtrinsic recording_collaborators 1000000000
     \<lparr>schedulingTimeLimit = 2592000000, api = None\<rparr> 1700000000000
     ''alice'' ''id'' [1700006401] ''bob'' 1000000000 ''extension'' []
     = (Inl NotHourAligned, \<lparr>schedulingTimeLimit = 2592000000, api = None\<rparr>, []) \<and>
   buildScheduleNativeTransferExtrinsic recording_collaborators 1000000000
     \<lparr>schedulingTimeLimit = 2592000000, api = None\<rparr> 1700000000000
     ''alice'' ''id'' [1700006400] ''bob'' 999999999 ''extension'' []
     = (Inl AmountTooLow, \<lparr>schedulingTimeLimit = 2592000000, api = None\<rparr>, [])"
proof -
  let ?S = "\<lparr>schedulingTimeLimit = 2592000000, api = None\<rparr>"
  let ?now = "1700000000000 :: int"
  have a: "validateTimestamps ?S ?now [1700006401] = Inl NotHourAligned"
    by code_simp
  have b: "validateTimestamps ?S ?now [1700006400] = Inr ()"
    by code_simp
  have c: "validateTransferParams 1000000000 999999999 ''alice'' ''bob'' = Inl AmountTooLow"
    by code_simp
  show ?thesis
    using a b c
      builders_validate_before_network [of ?S ?now "[1700006401]" NotHourAligned
        recording_collaborators "''alice''" 7 "''ping''" "''extension''" "[]"
        1000000000 "''id''" "''bob''" 1000000000]
      builders_validate_before_network [of ?S ?now "[1700006400]" AmountTooLow
        recording_collaborators "''alice''" 7 "''ping''" "''extension''" "[]"
        1000000000 "''id''" "''bob''" 999999999]
    by simp
qed

subsection \<open>C3: sendExtrinsic unsubscribes at once and returns the hash\<close>

lemma sendExtrinsic_established:
  assumes "getAPIClient env this w = (Inr a, this1, w1)"
    and "tx a extrinsicHex = Inr txObject"
    and "submitAndWatch env txObject w1 = (Inr events, w2)"
  shows "sendExtrinsic env this extrinsicHex handleDispatch w =
     (case fold (deliver (statusCallback env handleDispatch)) (take 1 events) (this1, w2) of
        (this', w') \<Rightarrow>
          (Inr (tx_hash txObject), this', w', Some \<lparr>pending = drop 1 events, live = False\<rparr>))"
  using assms by (simp add: sendExtrinsic_def send_def unsub_def split: prod.splits)

lemma run_subscription_torn_down:
  "run_subscription callback \<lparr>pending = events, live = False\<rparr> st = st"
  by (simp add: run_subscription_def)

lemma run_subscription_live:
  "run_subscription callback \<lparr>pending = events, live = True\<rparr> st = fold (deliver callback) events st"
  by (simp add: run_subscription_def)

text \<open>
  Claim C3. When the connection, the decoding and the submission succeed,
  \<open>sendExtrinsic\<close> hands the callback at most the first status event (\<open>take 1\<close> of the
  events), calls \<open>unsub\<close> right after \<open>send\<close>, so that the subscription it leaves behind
  is not live and never delivers any of the later events, and returns the hash of the
  decoded bytes, whatever the events are and whatever the callback did.
\<close>

theorem sendExtrinsic_first_event_only:
  assumes "getAPIClient env this w = (Inr a, this1, w1)"
    and "tx a extrinsicHex = Inr txObject"
    and "submitAndWatch env txObject w1 = (Inr events, w2)"
  shows "sendExtrinsic env this extrinsicHex handleDispatch w =
           (case fold (deliver (statusCallback env handleDispatch)) (take 1 events) (this1, w2) of
              (this', w') \<Rightarrow>
                (Inr (tx_hash txObject), this', w',
                 Some \<lparr>pending = drop 1 events, live = False\<rparr>)) \<and>
         (\<forall>st. run_subscription (statusCallback env handleDispatch)
                 \<lparr>pending = drop 1 events, live = False\<rparr> st = st) \<and>
         fst (sendExtrinsic env this extrinsicHex handleDispatch w) = Inr (tx_hash txObject)"
proof (intro conjI allI)
  show e: "sendExtrinsic env this extrinsicHex handleDispatch w =
           (case fold (deliver (statusCallback env handleDispatch)) (take 1 events) (this1, w2) of
              (this', w') \<Rightarrow>
                (Inr (tx_hash txObject), this', w',
                 Some \<lparr>pending = drop 1 events, live = False\<rparr>))"
    using assms by (rule sendExtrinsic_established)
  show "fst (sendExtrinsic env this extrinsicHex handleDispatch w) = Inr (tx_hash txObject)"
    by (simp add: e split: prod.splits)
next
  fix st :: "Scheduler \<times> 'a"
  show "run_subscription (statusCallback env handleDispatch)
          \<lparr>pending = drop 1 events, live = False\<rparr> st = st"
    by (rule run_subscription_torn_down)
qed

text \<open>
  With the stub, the chain emits Ready, InBlock and Finalized. A handler that records the
  status it is given sees Ready only; the same subscription left live would have handed
  it the other two.
\<close>

theorem sendExtrinsic_first_event_only_witness:
  "sendExtrinsic recording_collaborators \<lparr>schedulingTimeLimit = 2592000000, api = None\<rparr> ''0x2a''
     (Some (\<lambda>result w. (Inr (), w @ [status_type result]))) []
     = (Inr ''0xh2a'', \<lparr>schedulingTimeLimit = 2592000000, api = Some stub_api\<rparr>,
        [''ApiPromise.create'', ''submitAndWatch'', ''Using custom error handler'', ''Ready''],
        Some \<lparr>pending = drop 1 stub_events, live = False\<rparr>) \<and>
   run_subscription
     (statusCallback recording_collaborators (Some (\<lambda>result w. (Inr (), w @ [status_type result]))))
     \<lparr>pending = drop 1 stub_events, live = False\<rparr>
     (\<lparr>schedulingTimeLimit = 2592000000, api = Some stub_api\<rparr>,
      [''ApiPromise.create'', ''submitAndWatch'', ''Using custom error handler'', ''Ready''])
     = (\<lparr>schedulingTimeLimit = 2592000000, api = Some stub_api\<rparr>,
        [''ApiPromise.create'', ''submitAndWatch'', ''Using custom error handler'', ''Ready'']) \<and>
   run_subscription
     (statusCallback recording_collaborators (Some (\<lambda>result w. (Inr (), w @ [status_type result]))))
     \<lparr>pending = drop 1 stub_events, live = True\<rparr>
     (\<lparr>schedulingTimeLimit = 2592000000, api = Some stub_api\<rparr>,
      [''ApiPromise.create'', ''submitAndWatch'', ''Using custom error handler'', ''Ready''])
     = (\<lparr>schedulingTimeLimit = 2592000000, api = Some stub_api\<rparr>,
        [''ApiPromise.create'', ''submitAndWatch'', ''Using custom error handler'', ''Ready'',
         ''Using custom error handler'', ''InBlock'', ''Using custom error handler'', ''Finalized''])"
proof -
  let ?S = "\<lparr>schedulingTimeLimit = 2592000000, api = None\<rparr>"
  let ?h = "Some (\<lambda>result (w :: string list). (Inr () :: error + unit, w @ [status_type result]))"
  have g: "getAPIClient recording_collaborators ?S []
      = (Inr stub_api, \<lparr>schedulingTimeLimit = 2592000000, api = Some stub_api\<rparr>, [''ApiPromise.create''])"
    by (simp add: getAPIClient_def recording_collaborators_def)
  have t: "tx stub_api ''0x2a'' = Inr \<lparr>tx_bytes = ''0x2a'', tx_hash = ''0xh2a''\<rparr>"
    by (simp add: stub_api_def)
  have s: "submitAndWatch recording_collaborators \<lparr>tx_bytes = ''0x2a'', tx_hash = ''0xh2a''\<rparr>
      [''ApiPromise.create''] = (Inr stub_events, [''ApiPromise.create'', ''submitAndWatch''])"
    by (simp add: recording_collaborators_def)
  have l: "run_subscription (statusCallback recording_collaborators ?h)
     \<lparr>pending = drop 1 stub_events, live = True\<rparr>
     (\<lparr>schedulingTimeLimit = 2592000000, api = Some stub_api\<rparr>,
      [''ApiPromise.create'', ''submitAndWatch'', ''Using custom error handler'', ''Ready''])
     = (\<lparr>schedulingTimeLimit = 2592000000, api = Some stub_api\<rparr>,
        [''ApiPromise.create'', ''submitAndWatch'', ''Using custom error handler'', ''Ready'',
         ''Using custom error handler'', ''InBlock'', ''Using custom error handler'', ''Finalized''])"
    by (simp add: run_subscription_def stub_events_def deliver_def statusCallback_def
        recording_collaborators_def)
  show ?thesis
    using sendExtrinsic_first_event_only [OF g t s, of ?h] l
    by (simp add: stub_events_def deliver_def statusCallback_def recording_collaborators_def)
qed

subsection \<open>C7: the default handler logs, and rejects only when the lookup does\<close>

text \<open>
  Claim C7, amended. \<open>defaultErrorHandler\<close> logs the status of every event. When the
  result is not finalized or carries no dispatch error it returns normally. On a finalized
  result with an opaque dispatch error it logs the error's string and returns normally.
  On a finalized result with a module error it obtains the client and asks the registry:
  when both succeed it logs the stringified \<^verbatim>\<open>{ docs, name, section }\<close> and returns
  normally; when the connection or the lookup rejects, it rejects with that error and
  logs nothing more. It never raises the dispatch error itself. On the default path of
  \<open>sendExtrinsic\<close> the client is already connected when the handler runs, and
  \<open>sendExtrinsic\<close> returns the transaction hash whatever the handler does.
\<close>

theorem defaultErrorHandler_logs_or_rejects:
  "(\<not> isFinalized result \<or> dispatchError result = None \<longrightarrow>
      defaultErrorHandler env this result w
        = (Inr (), this, console_log env (''Tx status: '' @ status_type result) w)) \<and>
   (isFinalized result \<and> dispatchError result = Some (NonModule str) \<longrightarrow>
      defaultErrorHandler env this result w
        = (Inr (), this,
           console_log env (''Transaction finalized with error by blockchain '' @ str)
             (console_log env (''Tx status: '' @ status_type result) w))) \<and>
   (isFinalized result \<and> dispatchError result = Some (Module pallet err) \<and>
    getAPIClient env this (console_log env (''Tx status: '' @ status_type result) w)
      = (Inr a, this', w') \<and>
    findMetaError a pallet err = Inr metaError \<longrightarrow>
      defaultErrorHandler env this result w
        = (Inr (), this',
           console_log env
             (''Transaction finalized with error by blockchain '' @ JSON_stringify metaError) w')) \<and>
   (isFinalized result \<and> dispatchError result = Some (Module pallet err) \<and>
    getAPIClient env this (console_log env (''Tx status: '' @ status_type result) w)
      = (Inr a, this', w') \<and>
    findMetaError a pallet err = Inl e \<longrightarrow>
      defaultErrorHandler env this result w = (Inl e, this', w')) \<and>
   (isFinalized result \<and> dispatchError result = Some (Module pallet err) \<and>
    getAPIClient env this (console_log env (''Tx status: '' @ status_type result) w)
      = (Inl e, this', w') \<longrightarrow>
      defaultErrorHandler env this result w = (Inl e, this', w')) \<and>
   (getAPIClient env this0 w0 = (Inr a0, this1, w1) \<and> tx a0 extrinsicHex = Inr txObject \<and>
    submitAndWatch env txObject w1 = (Inr events, w2) \<longrightarrow>
      (\<forall>w3. getAPIClient env this1 w3 = (Inr a0, this1, w3)) \<and>
      fst (sendExtrinsic env this0 extrinsicHex None w0) = Inr (tx_hash txObject))"
proof (intro conjI impI allI)
  assume "\<not> isFinalized result \<or> dispatchError result = None"
  then show "defaultErrorHandler env this result w
        = (Inr (), this, console_log env (''Tx status: '' @ status_type result) w)"
    by (auto simp: defaultErrorHandler_def Let_def)
next
  assume "isFinalized result \<and> dispatchError result = Some (NonModule str)"
  then show "defaultErrorHandler env this result w
        = (Inr (), this,
           console_log env (''Transaction finalized with error by blockchain '' @ str)
             (console_log env (''Tx status: '' @ status_type result) w))"
    by (simp add: defaultErrorHandler_def Let_def)
next
  assume "isFinalized result \<and> dispatchError result = Some (Module pallet err) \<and>
    getAPIClient env this (console_log env (''Tx status: '' @ status_type result) w)
      = (Inr a, this', w') \<and>
    findMetaError a pallet err = Inr metaError"
  then show "defaultErrorHandler env this result w
        = (Inr (), this',
           console_log env
             (''Transaction finalized with error by blockchain '' @ JSON_stringify metaError) w')"
    by (simp add: defaultErrorHandler_def Let_def)
next
  assume "isFinalized result \<and> dispatchError result = Some (Module pallet err) \<and>
    getAPIClient env this (console_log env (''Tx status: '' @ status_type result) w)
      = (Inr a, this', w') \<and>
    findMetaError a pallet err = Inl e"
  then show "defaultErrorHandler env this result w = (Inl e, this', w')"
    by (simp add: defaultErrorHandler_def Let_def)
next
  assume "isFinalized result \<and> dispatchError result = Some (Module pallet err) \<and>
    getAPIClient env this (console_log env (''Tx status: '' @ status_type result) w)
      = (Inl e, this', w')"
  then show "defaultErrorHandler env this result w = (Inl e, this', w')"
    by (simp add: defaultErrorHandler_def Let_def)
next
  fix w3
  assume "getAPIClient env this0 w0 = (Inr a0, this1, w1) \<and> tx a0 extrinsicHex = Inr txObject \<and>
    submitAndWatch env txObject w1 = (Inr events, w2)"
  then have "getAPIClient env this0 w0 = (Inr a0, this1, w1)"
    by simp
  then have "api this1 = Some a0"
    by (rule getAPIClient_connected)
  then show "getAPIClient env this1 w3 = (Inr a0, this1, w3)"
    by (rule getAPIClient_cached)
next
  assume h: "getAPIClient env this0 w0 = (Inr a0, this1, w1) \<and> tx a0 extrinsicHex = Inr txObject \<and>
    submitAndWatch env txObject w1 = (Inr events, w2)"
  show "fst (sendExtrinsic env this0 extrinsicHex None w0) = Inr (tx_hash txObject)"
    using h by (simp add: sendExtrinsic_established [of env this0 w0 a0 this1 w1 extrinsicHex txObject events w2]
        split: prod.splits)
qed

text \<open>
  The claim as stated fails: the source calls \<^verbatim>\<open>findMetaError\<close> outside any
  \<^verbatim>\<open>try\<close>, so a module error the registry does not know makes the handler reject, and
  so does a connection that cannot be made when the handler is called on an object that
  is not connected.
\<close>

theorem defaultErrorHandler_logs_or_rejects_counterexample:
  "defaultErrorHandler recording_collaborators
     \<lparr>schedulingTimeLimit = 2592000000, api = Some stub_api\<rparr>
     \<lparr>status_type = ''Finalized'', isFinalized = True, dispatchError = Some (Module 60 99)\<rparr> []
     = (Inl (External ''findMetaError: Unable to find Error''),
        \<lparr>schedulingTimeLimit = 2592000000, api = Some stub_api\<rparr>, [''Tx status: Finalized'']) \<and>
   defaultErrorHandler
     (recording_collaborators
        \<lparr>ApiPromise_create := (\<lambda>w. (Inl (External ''disconnected''), w @ [''ApiPromise.create'']))\<rparr>)
     \<lparr>schedulingTimeLimit = 2592000000, api = None\<rparr>
     \<lparr>status_type = ''Finalized'', isFinalized = True, dispatchError = Some (Module 60 3)\<rparr> []
     = (Inl (External ''disconnected''),
        \<lparr>schedulingTimeLimit = 2592000000, api = None\<rparr>,
        [''Tx status: Finalized'', ''ApiPromise.create''])"
  by (simp add: defaultErrorHandler_def getAPIClient_def recording_collaborators_def stub_api_def)

text \<open>
  The four outcomes on a connected object, and a submission whose first event is a
  finalized module error unknown to the registry: the handler rejects and
  \<open>sendExtrinsic\<close> returns the hash.
\<close>

theorem defaultErrorHandler_logs_or_rejects_witness:
  \<open>defaultErrorHandler recording_collaborators
     \<lparr>schedulingTimeLimit = 2592000000, api = Some stub_api\<rparr>
     \<lparr>status_type = ''Finalized'', isFinalized = True, dispatchError = Some (Module 60 3)\<rparr> []
     = (Inr (), \<lparr>schedulingTimeLimit = 2592000000, api = Some stub_api\<rparr>,
        [''Tx status: Finalized'',
         ''Transaction finalized with error by blockchain {"docs":["The task id is already in use"],"name":"DuplicateTask","section":"automationTime"}'']) \<and>
   defaultErrorHandler recording_collaborators
     \<lparr>schedulingTimeLimit = 2592000000, api = Some stub_api\<rparr>
     \<lparr>status_type = ''Finalized'', isFinalized = True,
      dispatchError = Some (NonModule ''BadOrigin'')\<rparr> []
     = (Inr (), \<lparr>schedulingTimeLimit = 2592000000, api = Some stub_api\<rparr>,
        [''Tx status: Finalized'', ''Transaction finalized with error by blockchain BadOrigin'']) \<and>
   defaultErrorHandler recording_collaborators
     \<lparr>schedulingTimeLimit = 2592000000, api = Some stub_api\<rparr>
     \<lparr>status_type = ''InBlock'', isFinalized = False,
      dispatchError = Some (NonModule ''BadOrigin'')\<rparr> []
     = (Inr (), \<lparr>schedulingTimeLimit = 2592000000, api = Some stub_api\<rparr>,
        [''Tx status: InBlock'']) \<and>
   defaultErrorHandler recording_collaborators
     \<lparr>schedulingTimeLimit = 2592000000, api = Some stub_api\<rparr>
     \<lparr>status_type = ''Finalized'', isFinalized = True, dispatchError = Some (Module 60 99)\<rparr> []
     = (Inl (External ''findMetaError: Unable to find Error''),
        \<lparr>schedulingTimeLimit = 2592000000, api = Some stub_api\<rparr>, [''Tx status: Finalized'']) \<and>
   fst (sendExtrinsic
     (recording_collaborators
        \<lparr>submitAndWatch := (\<lambda>txObject w.
           (Inr [\<lparr>status_type = ''Finalized'', isFinalized = True,
                   dispatchError = Some (Module 60 99)\<rparr>], w @ [''submitAndWatch'']))\<rparr>)
     \<lparr>schedulingTimeLimit = 2592000000, api = None\<rparr> ''0x2a'' None [])
     = Inr ''0xh2a''\<close>
proof -
  let ?C = "\<lparr>schedulingTimeLimit = 2592000000, api = Some stub_api\<rparr>"
  let ?S = "\<lparr>schedulingTimeLimit = 2592000000, api = None\<rparr>"
  let ?known = "\<lparr>status_type = ''Finalized'', isFinalized = True, dispatchError = Some (Module 60 3)\<rparr>"
  let ?unknown = "\<lparr>status_type = ''Finalized'', isFinalized = True, dispatchError = Some (Module 60 99)\<rparr>"
  let ?opaque = "\<lparr>status_type = ''Finalized'', isFinalized = True,
      dispatchError = Some (NonModule ''BadOrigin'')\<rparr>"
  let ?early = "\<lparr>status_type = ''InBlock'', isFinalized = False,
      dispatchError = Some (NonModule ''BadOrigin'')\<rparr>"
  let ?env = "recording_collaborators
        \<lparr>submitAndWatch := (\<lambda>txObject w.
           (Inr [?unknown], w @ [''submitAndWatch'']))\<rparr>"
  let ?none = "[] :: string"
  have c: "getAPIClient recording_collaborators ?C
      (console_log recording_collaborators (''Tx status: '' @ ''Finalized'') [])
      = (Inr stub_api, ?C, [''Tx status: Finalized''])"
    by (simp add: getAPIClient_def recording_collaborators_def)
  have k: "findMetaError stub_api 60 3 = Inr stub_metaError"
    by (simp add: stub_api_def)
  have u: "findMetaError stub_api 60 99 = Inl (External ''findMetaError: Unable to find Error'')"
    by (simp add: stub_api_def)
  have j: \<open>JSON_stringify stub_metaError = ''{"docs":["The task id is already in use"],"name":"DuplicateTask","section":"automationTime"}''\<close>
    by code_simp
  have g: "getAPIClient ?env ?S [] = (Inr stub_api, ?C, [''ApiPromise.create''])"
    by (simp add: getAPIClient_def recording_collaborators_def)
  have t: "tx stub_api ''0x2a'' = Inr \<lparr>tx_bytes = ''0x2a'', tx_hash = ''0xh2a''\<rparr>"
    by (simp add: stub_api_def)
  have s: "submitAndWatch ?env \<lparr>tx_bytes = ''0x2a'', tx_hash = ''0xh2a''\<rparr> [''ApiPromise.create'']
      = (Inr [?unknown], [''ApiPromise.create'', ''submitAndWatch''])"
    by simp
  have "defaultErrorHandler recording_collaborators ?C ?known []
      = (Inr (), ?C, console_log recording_collaborators
           (''Transaction finalized with error by blockchain '' @ JSON_stringify stub_metaError)
           [''Tx status: Finalized''])"
    using defaultErrorHandler_logs_or_rejects [of ?known recording_collaborators ?C "[]"
        ?none 60 3 stub_api ?C "[''Tx status: Finalized'']" stub_metaError] c k
    by simp
  then have 1: \<open>defaultErrorHandler recording_collaborators ?C ?known []
      = (Inr (), ?C, [''Tx status: Finalized'',
         ''Transaction finalized with error by blockchain {"docs":["The task id is already in use"],"name":"DuplicateTask","section":"automationTime"}''])\<close>
    by (simp add: j recording_collaborators_def)
  have 2: "defaultErrorHandler recording_collaborators ?C ?opaque []
      = (Inr (), ?C, [''Tx status: Finalized'',
           ''Transaction finalized with error by blockchain BadOrigin''])"
    using defaultErrorHandler_logs_or_rejects [of ?opaque recording_collaborators ?C "[]"
        "''BadOrigin''"]
    by (simp add: recording_collaborators_def)
  have 3: "defaultErrorHandler recording_collaborators ?C ?early [] = (Inr (), ?C, [''Tx status: InBlock''])"
    using defaultErrorHandler_logs_or_rejects [of ?early recording_collaborators ?C "[]"]
    by (simp add: recording_collaborators_def)
  have 4: "defaultErrorHandler recording_collaborators ?C ?unknown []
      = (Inl (External ''findMetaError: Unable to find Error''), ?C, [''Tx status: Finalized''])"
    using defaultErrorHandler_logs_or_rejects [of ?unknown recording_collaborators ?C "[]"
        ?none 60 99 stub_api ?C "[''Tx status: Finalized'']" stub_metaError
        "External ''findMetaError: Unable to find Error''"] c u
    by simp
  have 5: "fst (sendExtrinsic ?env ?S ''0x2a'' None []) = Inr ''0xh2a''"
    using defaultErrorHandler_logs_or_rejects [of ?known ?env ?C "[]" ?none 60 3 stub_api ?C "[]"
        stub_metaError "External []" ?S "[]" stub_api ?C "[''ApiPromise.create'']" "''0x2a''"
        "\<lparr>tx_bytes = ''0x2a'', tx_hash = ''0xh2a''\<rparr>" "[?unknown]"
        "[''ApiPromise.create'', ''submitAndWatch'']"] g t s
    by simp
  show ?thesis
    using 1 2 3 4 5 by (intro conjI)
qed

subsection \<open>C10: the empty schedule\<close>

text \<open>
  Claim C10. \<open>validateTimestamps\<close> succeeds on the empty sequence. The notify builder
  then connects and signs the call \<open>ScheduleNotifyTask\<close> with no execution times, and so
  does the transfer builder with \<open>ScheduleNativeTransferTask\<close> when the transfer
  parameters are valid: the result is whatever the connection and the signature give.
\<close>

theorem empty_schedule_accepted:
  "validateTimestamps this now [] = Inr () \<and>
   buildScheduleNotifyExtrinsic env this now address providedID [] message signer w =
     (case getAPIClient env this w of
        (Inl e, this', w') \<Rightarrow> (Inl e, this', w')
      | (Inr polkadotApi, this', w') \<Rightarrow>
          (case signAsync env (ScheduleNotifyTask providedID [] message) address signer w' of
             (r, w'') \<Rightarrow> (r, this', w''))) \<and>
   (validateTransferParams lowest amount address recipient = Inr () \<longrightarrow>
      buildScheduleNativeTransferExtrinsic env lowest this now address providedID' [] recipient
          amount signer w =
        (case getAPIClient env this w of
           (Inl e, this', w') \<Rightarrow> (Inl e, this', w')
         | (Inr polkadotApi, this', w') \<Rightarrow>
             (case signAsync env (ScheduleNativeTransferTask providedID' [] recipient amount)
                     address signer w' of
                (r, w'') \<Rightarrow> (r, this', w''))))"
proof (intro conjI impI)
  show v: "validateTimestamps this now [] = Inr ()"
    by (simp add: validateTimestamps_def RECURRING_TASK_LIMIT_def)
  show "buildScheduleNotifyExtrinsic env this now address providedID [] message signer w =
     (case getAPIClient env this w of
        (Inl e, this', w') \<Rightarrow> (Inl e, this', w')
      | (Inr polkadotApi, this', w') \<Rightarrow>
          (case signAsync env (ScheduleNotifyTask providedID [] message) address signer w' of
             (r, w'') \<Rightarrow> (r, this', w'')))"
    by (simp add: buildScheduleNotifyExtrinsic_def v convertToSeconds_def
        split: prod.splits sum.splits)
next
  assume "validateTransferParams lowest amount address recipient = Inr ()"
  moreover have "validateTimestamps this now [] = Inr ()"
    by (simp add: validateTimestamps_def RECURRING_TASK_LIMIT_def)
  ultimately show "buildScheduleNativeTransferExtrinsic env lowest this now address providedID' []
        recipient amount signer w =
        (case getAPIClient env this w of
           (Inl e, this', w') \<Rightarrow> (Inl e, this', w')
         | (Inr polkadotApi, this', w') \<Rightarrow>
             (case signAsync env (ScheduleNativeTransferTask providedID' [] recipient amount)
                     address signer w' of
                (r, w'') \<Rightarrow> (r, this', w'')))"
    by (simp add: buildScheduleNativeTransferExtrinsic_def convertToSeconds_def
        split: prod.splits sum.splits)
qed

text \<open>With the stub: one connection, one signature, and the signed bytes are returned.\<close>

theorem empty_schedule_accepted_witness:
  "buildScheduleNotifyExtrinsic recording_collaborators
     \<lparr>schedulingTimeLimit = 2592000000, api = None\<rparr> 1700000000000
     ''alice'' 7 [] ''ping'' ''extension'' []
     = (Inr ''0x2a'', \<lparr>schedulingTimeLimit = 2592000000, api = Some stub_api\<rparr>,
        [''ApiPromise.create'', ''signAsync'']) \<and>
   buildScheduleNativeTransferExtrinsic recording_collaborators 1000000000
     \<lparr>schedulingTimeLimit = 2592000000, api = None\<rparr> 1700000000000
     ''alice'' ''id'' [] ''bob'' 1000000000 ''extension'' []
     = (Inr ''0x2a'', \<lparr>schedulingTimeLimit = 2592000000, api = Some stub_api\<rparr>,
        [''ApiPromise.create'', ''signAsync''])"
proof -
  have p: "validateTransferParams 1000000000 1000000000 ''alice'' ''bob'' = Inr ()"
    by code_simp
  show ?thesis
    using p empty_schedule_accepted [of "\<lparr>schedulingTimeLimit = 2592000000, api = None\<rparr>"
        1700000000000 recording_collaborators "''alice''" 7 "''ping''" "''extension''" "[]"
        1000000000 1000000000 "''bob''" "''id''"]
    by (simp add: getAPIClient_def recording_collaborators_def)
qed

end
